theory Spec2Isabelle
  imports Main
begin

section \<open>Framework values and diagnostics\<close>

text \<open>
  The provider keeps every attribute in a three-state framework value
  (\<^verbatim>\<open>types.String\<close>, \<^verbatim>\<open>types.Bool\<close>): null, unknown, or known with a Go value.
  \<^verbatim>\<open>types.StringValue s\<close> is \<open>Known s\<close>; the zero value of the Go type is \<open>Null\<close>.
  \<^verbatim>\<open>ValueString\<close> returns the empty string for a null or unknown value.
\<close>

datatype 'a tfvalue = Null | Unknown | Known 'a

fun IsNull :: "'a tfvalue \<Rightarrow> bool" where
  "IsNull Null = True"
| "IsNull Unknown = False"
| "IsNull (Known v) = False"

fun IsUnknown :: "'a tfvalue \<Rightarrow> bool" where
  "IsUnknown Null = False"
| "IsUnknown Unknown = True"
| "IsUnknown (Known v) = False"

fun ValueString :: "string tfvalue \<Rightarrow> string" where
  "ValueString Null = []"
| "ValueString Unknown = []"
| "ValueString (Known s) = s"

text \<open>
  A diagnostic is a severity with a summary and a detail. \<^verbatim>\<open>Diagnostics.Append\<close> skips a
  diagnostic that the collection already contains; \<^verbatim>\<open>AddError\<close> appends one error through it.
\<close>

datatype diagnostic = ErrorDiagnostic string string | WarningDiagnostic string string

fun is_error :: "diagnostic \<Rightarrow> bool" where
  "is_error (ErrorDiagnostic s d) = True"
| "is_error (WarningDiagnostic s d) = False"

definition HasError :: "diagnostic list \<Rightarrow> bool" where
  "HasError ds = list_ex is_error ds"

fun Append :: "diagnostic list \<Rightarrow> diagnostic list \<Rightarrow> diagnostic list" where
  "Append ds [] = ds"
| "Append ds (d # rest) = Append (if d \<in> set ds then ds else ds @ [d]) rest"

definition AddError :: "diagnostic list \<Rightarrow> string \<Rightarrow> string \<Rightarrow> diagnostic list" where
  "AddError ds summary detail = Append ds [ErrorDiagnostic summary detail]"


section \<open>Strings\<close>

text \<open>
  \<^verbatim>\<open>strings.TrimSuffix\<close>, \<^verbatim>\<open>strings.Split\<close> at a one-byte separator (the empty string splits
  into one empty segment), and the \<^verbatim>\<open>%d\<close> verb of \<^verbatim>\<open>fmt.Sprintf\<close>.
\<close>

definition TrimSuffix :: "string \<Rightarrow> string \<Rightarrow> string" where
  "TrimSuffix s suffix =
     (if length suffix \<le> length s \<and> drop (length s - length suffix) s = suffix
      then take (length s - length suffix) s else s)"

fun Split :: "string \<Rightarrow> char \<Rightarrow> string list" where
  "Split [] sep = [[]]"
| "Split (c # cs) sep =
     (if c = sep then [] # Split cs sep
      else (case Split cs sep of [] \<Rightarrow> [[c]] | p # ps \<Rightarrow> (c # p) # ps))"

function nat_digits :: "nat \<Rightarrow> string" where
  "nat_digits n =
     (if n < 10 then [''0123456789'' ! n]
      else nat_digits (n div 10) @ [''0123456789'' ! (n mod 10)])"
  by pat_completeness auto
termination
  by (relation "measure (\<lambda>n. n)") auto

declare nat_digits.simps [simp del]

definition Sprint_d :: "int \<Rightarrow> string" where
  "Sprint_d i = (if i < 0 then CHR ''-'' # nat_digits (nat (- i)) else nat_digits (nat i))"


section \<open>HTTP requests, the wire and the client\<close>

text \<open>
  A request as the handlers build it: method, URL, headers, and the body. The only bodies
  sent are JSON objects of string members, kept as the list of members that
  \<^verbatim>\<open>json.Marshal\<close> emits. A response is a status code and the outcome of
  \<^verbatim>\<open>io.ReadAll\<close> on its body (\<open>Inl\<close> a read error, \<open>Inr\<close> the bytes).
  \<^verbatim>\<open>Header.Set\<close> replaces the value stored under a key; the keys the provider uses are
  written in their canonical form already.
\<close>

datatype body = NoBody | JSONBody "(string \<times> string) list"

record request =
  Method :: string
  URL :: string
  Header :: "(string \<times> string) list"
  Body :: body

record response =
  StatusCode :: int
  ReadAll :: "string + string"

fun Header_Set :: "(string \<times> string) list \<Rightarrow> string \<Rightarrow> string \<Rightarrow> (string \<times> string) list" where
  "Header_Set [] k v = [(k, v)]"
| "Header_Set ((k', v') # h) k v =
     (if k' = k then (k, v) # h else (k', v') # Header_Set h k v)"

definition Header_Get :: "(string \<times> string) list \<Rightarrow> string \<Rightarrow> string option" where
  "Header_Get h k = map_of h k"

text \<open>
  The world outside the provider: the remote system's state, of any type \<open>'r\<close>, and the
  list of requests that reached the network, oldest first. Only \<open>DefaultTransport\<close> touches it.
\<close>

record 'r world =
  sent :: "request list"
  remote :: 'r

text \<open>
  The structs that the API responses are decoded into: a project, and a project member with
  its nested user.
\<close>

record Project =
  Project_Id :: string
  Project_Name :: string
  Project_Description :: string
  Project_OrganisationId :: string
  Project_Archived :: bool
  Project_ArchivedAt :: string
  Project_CreatedAt :: string
  Project_UpdatedAt :: string

record ProjectMemberUser =
  User_Id :: string
  User_EMail :: string
  User_DisplayName :: string

record ProjectMember =
  Member_Id :: string
  Member_ProjectId :: string
  Member_UserId :: string
  Member_User :: ProjectMemberUser

text \<open>
  What the Go libraries and the remote system contribute, taken as parameters: the error
  \<^verbatim>\<open>http.NewRequestWithContext\<close> reports for a URL it cannot parse (\<open>None\<close> when it parses),
  the remote system answering one request (\<open>Inl\<close> a transport error), and
  \<^verbatim>\<open>json.Unmarshal\<close> into each of the response structs (\<open>Inl\<close> the decoding error).
\<close>

record 'r library =
  url_error :: "string \<Rightarrow> string option"
  network :: "request \<Rightarrow> 'r \<Rightarrow> (string + response) \<times> 'r"
  Unmarshal_Project :: "string \<Rightarrow> string + Project"
  Unmarshal_Projects :: "string \<Rightarrow> string + Project list"
  Unmarshal_ProjectMember :: "string \<Rightarrow> string + ProjectMember"

definition NewRequestWithContext :: "'r library \<Rightarrow> string \<Rightarrow> string \<Rightarrow> body \<Rightarrow> string + request" where
  "NewRequestWithContext L method url b =
     (case url_error L url of
        Some err \<Rightarrow> Inl err
      | None \<Rightarrow> Inr \<lparr>Method = method, URL = url, Header = [], Body = b\<rparr>)"

text \<open>
  \<^verbatim>\<open>http.RoundTripper\<close> has two implementations here: the library's default transport, which
  puts the request on the network, and the provider's \<^verbatim>\<open>authenticatedTransport\<close>, a struct
  of an API key and the transport it wraps.
\<close>

datatype RoundTripper =
  DefaultTransport
| authenticatedTransport (apiKey: string) (transport: RoundTripper)

fun RoundTrip :: "'r library \<Rightarrow> RoundTripper \<Rightarrow> request \<Rightarrow> 'r world \<Rightarrow> (string + response) \<times> 'r world" where
  "RoundTrip L DefaultTransport req w =
     (case network L req (remote w) of
        (res, r') \<Rightarrow> (res, \<lparr>sent = sent w @ [req], remote = r'\<rparr>))"
| "RoundTrip L (authenticatedTransport key t) req w =
     RoundTrip L t (req\<lparr>Header := Header_Set (Header req) ''Authorization'' (''Bearer '' @ key)\<rparr>) w"

record Client =
  Transport :: RoundTripper

definition DefaultClient :: Client where
  "DefaultClient = \<lparr>Transport = DefaultTransport\<rparr>"

definition Do :: "'r library \<Rightarrow> Client \<Rightarrow> request \<Rightarrow> 'r world \<Rightarrow> (string + response) \<times> 'r world" where
  "Do L c req w = RoundTrip L (Transport c) req w"


section \<open>The provider and its configuration\<close>

text \<open>
  \<^verbatim>\<open>SwitchcloudProvider.Configure\<close> hands a client and an endpoint to every resource and data
  source; the three handler structs store exactly these two entries. The process environment
  is the function \<open>Getenv\<close>; \<open>gd\<close> stands for the diagnostics that reading the
  configuration into the model produced.
\<close>

record SwitchcloudProviderModel =
  Endpoint :: "string tfvalue"
  ApiKey :: "string tfvalue"

record ProviderData =
  client :: Client
  endpoint :: string

definition Configure :: "(string \<Rightarrow> string) \<Rightarrow> diagnostic list \<Rightarrow> SwitchcloudProviderModel
    \<Rightarrow> diagnostic list \<times> ProviderData option" where
  "Configure Getenv gd data =
     (if HasError gd then (gd, None)
      else
        let e0 = (if \<not> IsNull (Endpoint data) then ValueString (Endpoint data)
                  else ''https://api.switchcloud.com'');
            e = (if Getenv ''SWITCHCLOUD_ENDPOINT'' \<noteq> [] then Getenv ''SWITCHCLOUD_ENDPOINT'' else e0);
            key = (if Getenv ''SWITCHCLOUD_API_KEY'' \<noteq> [] then Known (Getenv ''SWITCHCLOUD_API_KEY'')
                   else ApiKey data);
            c = (if \<not> IsNull key
                 then \<lparr>Transport = authenticatedTransport (ValueString key) DefaultTransport\<rparr>
                 else DefaultClient)
        in (gd, Some \<lparr>client = c, endpoint = e\<rparr>))"

text \<open>
  What a handler leaves behind: the diagnostics of the response, the state of the response
  (\<open>None\<close> when the response holds no resource), and the world after the call.

  Every handler below is a method of a struct that the provider has configured, so its client
  is present. Its argument \<open>gd\<close> stands for the diagnostics that reading the plan, the state
  or the configuration into the model produced, and \<open>data\<close> for the model read. Writing a
  model back with \<^verbatim>\<open>State.Set\<close> or \<^verbatim>\<open>State.SetAttribute\<close> produces no diagnostic, the
  model having the types of the schema. \<^verbatim>\<open>json.Marshal\<close> cannot fail on a struct of strings,
  so the branch that reports its error has no counterpart. \<^verbatim>\<open>client.Do\<close> is one round trip of
  the client's transport. The response state starts as the framework prepares it: empty for
  Create, Import and the data source, the prior state for Read, Update and Delete.
\<close>

record ('m, 'r) outcome =
  Diagnostics :: "diagnostic list"
  State :: "'m option"
  World :: "'r world"


section \<open>The project member resource\<close>

record ProjectMemberResourceModel =
  PM_Id :: "string tfvalue"
  PM_ProjectId :: "string tfvalue"
  PM_UserId :: "string tfvalue"
  PM_EMail :: "string tfvalue"
  PM_DisplayName :: "string tfvalue"

record ProjectMemberCreateRequest =
  Req_UserId :: string
  Req_EMail :: string

text \<open>Both members of the create request carry \<^verbatim>\<open>omitempty\<close>: an empty string is left out.\<close>

definition Marshal_ProjectMemberCreateRequest :: "ProjectMemberCreateRequest \<Rightarrow> body" where
  "Marshal_ProjectMemberCreateRequest cr =
     JSONBody ((if Req_UserId cr = [] then [] else [(''user_id'', Req_UserId cr)]) @
               (if Req_EMail cr = [] then [] else [(''email'', Req_EMail cr)]))"

definition member_of_response :: "ProjectMember \<Rightarrow> ProjectMemberResourceModel" where
  "member_of_response projectMember =
     \<lparr>PM_Id = Known (Member_Id projectMember),
      PM_ProjectId = Known (Member_ProjectId projectMember),
      PM_UserId = Known (Member_UserId projectMember),
      PM_EMail = Known (User_EMail (Member_User projectMember)),
      PM_DisplayName = Known (User_DisplayName (Member_User projectMember))\<rparr>"

definition ProjectMemberResource_ValidateConfig :: "diagnostic list \<Rightarrow> ProjectMemberResourceModel
    \<Rightarrow> diagnostic list" where
  "ProjectMemberResource_ValidateConfig gd config =
     (if HasError gd then gd
      else
        let ds = (if IsNull (PM_UserId config) \<and> IsNull (PM_EMail config)
                  then AddError gd ''Configuration Error''
                         ''Either 'user_id' or 'email' must be provided for a project member.''
                  else gd)
        in (if \<not> IsNull (PM_UserId config) \<and> \<not> IsNull (PM_EMail config)
            then AddError ds ''Configuration Error''
                   ''Only one of 'user_id' or 'email' can be provided for a project member.''
            else ds))"

definition ProjectMemberResource_Create :: "'r library \<Rightarrow> ProviderData \<Rightarrow> diagnostic list
    \<Rightarrow> ProjectMemberResourceModel \<Rightarrow> 'r world \<Rightarrow> (ProjectMemberResourceModel, 'r) outcome" where
  "ProjectMemberResource_Create L r gd data w =
     (if HasError gd then \<lparr>Diagnostics = gd, State = None, World = w\<rparr>
      else
        let createRequest =
              (if IsUnknown (PM_UserId data)
               then \<lparr>Req_UserId = [], Req_EMail = ValueString (PM_EMail data)\<rparr>
               else \<lparr>Req_UserId = ValueString (PM_UserId data), Req_EMail = []\<rparr>);
            jsonBody = Marshal_ProjectMemberCreateRequest createRequest
        in case NewRequestWithContext L ''POST''
                  (TrimSuffix (endpoint r) ''/'' @ ''/api/v1/projects/''
                     @ ValueString (PM_ProjectId data) @ ''/members'') jsonBody of
             Inl err \<Rightarrow>
               \<lparr>Diagnostics = AddError gd ''Client Error''
                                (''Unable to create request, got error: '' @ err),
                State = None, World = w\<rparr>
           | Inr httpReq0 \<Rightarrow>
               let httpReq = httpReq0\<lparr>Header :=
                     Header_Set (Header_Set (Header httpReq0) ''Content-Type'' ''application/json'')
                                ''Accept'' ''application/json''\<rparr>
               in case Do L (client r) httpReq w of
                    (Inl err, w') \<Rightarrow>
                      \<lparr>Diagnostics = AddError gd ''Client Error''
                                       (''Unable to create project member, got error: '' @ err),
                       State = None, World = w'\<rparr>
                  | (Inr httpResp, w') \<Rightarrow>
                      (case ReadAll httpResp of
                         Inl err \<Rightarrow>
                           \<lparr>Diagnostics = AddError gd ''Client Error''
                                            (''Unable to read response body, got error: '' @ err),
                            State = None, World = w'\<rparr>
                       | Inr bytes \<Rightarrow>
                           if StatusCode httpResp \<noteq> 201
                           then \<lparr>Diagnostics = AddError gd ''Client Error''
                                    (''API returned status '' @ Sprint_d (StatusCode httpResp)
                                       @ '': '' @ bytes),
                                 State = None, World = w'\<rparr>
                           else (case Unmarshal_ProjectMember L bytes of
                                   Inl err \<Rightarrow>
                                     \<lparr>Diagnostics = AddError gd ''Client Error''
                                        (''Unable to parse response, got error: '' @ err),
                                      State = None, World = w'\<rparr>
                                 | Inr projectMember \<Rightarrow>
                                     \<lparr>Diagnostics = gd,
                                      State = Some (member_of_response projectMember),
                                      World = w'\<rparr>)))"

definition ProjectMemberResource_Read :: "'r library \<Rightarrow> ProviderData \<Rightarrow> diagnostic list
    \<Rightarrow> ProjectMemberResourceModel \<Rightarrow> 'r world \<Rightarrow> (ProjectMemberResourceModel, 'r) outcome" where
  "ProjectMemberResource_Read L r gd data w =
     (if HasError gd then \<lparr>Diagnostics = gd, State = Some data, World = w\<rparr>
      else
        case NewRequestWithContext L ''GET''
               (TrimSuffix (endpoint r) ''/'' @ ''/api/v1/projects/''
                  @ ValueString (PM_ProjectId data) @ ''/members/'' @ ValueString (PM_Id data))
               NoBody of
          Inl err \<Rightarrow>
            \<lparr>Diagnostics = AddError gd ''Client Error''
                             (''Unable to create request, got error: '' @ err),
             State = Some data, World = w\<rparr>
        | Inr httpReq0 \<Rightarrow>
            let httpReq = httpReq0\<lparr>Header :=
                  Header_Set (Header httpReq0) ''Accept'' ''application/json''\<rparr>
            in case Do L (client r) httpReq w of
                 (Inl err, w') \<Rightarrow>
                   \<lparr>Diagnostics = AddError gd ''Client Error''
                                    (''Unable to read project, got error: '' @ err),
                    State = Some data, World = w'\<rparr>
               | (Inr httpResp, w') \<Rightarrow>
                   (case ReadAll httpResp of
                      Inl err \<Rightarrow>
                        \<lparr>Diagnostics = AddError gd ''Client Error''
                                         (''Unable to read response body, got error: '' @ err),
                         State = Some data, World = w'\<rparr>
                    | Inr bytes \<Rightarrow>
                        if StatusCode httpResp = 404
                        then \<lparr>Diagnostics = gd, State = None, World = w'\<rparr>
                        else if StatusCode httpResp \<noteq> 200
                        then \<lparr>Diagnostics = AddError gd ''Client Error''
                                 (''API returned status '' @ Sprint_d (StatusCode httpResp)
                                    @ '': '' @ bytes),
                              State = Some data, World = w'\<rparr>
                        else (case Unmarshal_ProjectMember L bytes of
                                Inl err \<Rightarrow>
                                  \<lparr>Diagnostics = AddError gd ''Client Error''
                                     (''Unable to parse response, got error: '' @ err),
                                   State = Some data, World = w'\<rparr>
                              | Inr projectMember \<Rightarrow>
                                  \<lparr>Diagnostics = gd,
                                   State = Some (member_of_response projectMember),
                                   World = w'\<rparr>)))"

definition ProjectMemberResource_Update :: "ProviderData \<Rightarrow> ProjectMemberResourceModel
    \<Rightarrow> ProjectMemberResourceModel \<Rightarrow> 'r world \<Rightarrow> (ProjectMemberResourceModel, 'r) outcome" where
  "ProjectMemberResource_Update r prior plan w =
     \<lparr>Diagnostics = AddError [] ''API Error''
                      ''Unable to update project member, method is not implemented on server'',
      State = Some prior, World = w\<rparr>"

definition ProjectMemberResource_Delete :: "'r library \<Rightarrow> ProviderData \<Rightarrow> diagnostic list
    \<Rightarrow> ProjectMemberResourceModel \<Rightarrow> 'r world \<Rightarrow> (ProjectMemberResourceModel, 'r) outcome" where
  "ProjectMemberResource_Delete L r gd data w =
     (if HasError gd then \<lparr>Diagnostics = gd, State = Some data, World = w\<rparr>
      else
        case NewRequestWithContext L ''DELETE''
               (TrimSuffix (endpoint r) ''/'' @ ''/api/v1/projects/''
                  @ ValueString (PM_ProjectId data) @ ''/members/'' @ ValueString (PM_Id data))
               NoBody of
          Inl err \<Rightarrow>
            \<lparr>Diagnostics = AddError gd ''Client Error''
                             (''Unable to create request, got error: '' @ err),
             State = Some data, World = w\<rparr>
        | Inr httpReq0 \<Rightarrow>
            let httpReq = httpReq0\<lparr>Header :=
                  Header_Set (Header httpReq0) ''Accept'' ''application/json''\<rparr>
            in case Do L (client r) httpReq w of
                 (Inl err, w') \<Rightarrow>
                   \<lparr>Diagnostics = AddError gd ''Client Error''
                                    (''Unable to delete project member, got error: '' @ err),
                    State = Some data, World = w'\<rparr>
               | (Inr httpResp, w') \<Rightarrow>
                   (case ReadAll httpResp of
                      Inl err \<Rightarrow>
                        \<lparr>Diagnostics = AddError gd ''Client Error''
                                         (''Unable to read response body, got error: '' @ err),
                         State = Some data, World = w'\<rparr>
                    | Inr bytes \<Rightarrow>
                        if StatusCode httpResp \<noteq> 204
                        then \<lparr>Diagnostics = AddError gd ''Client Error''
                                 (''API returned status '' @ Sprint_d (StatusCode httpResp)
                                    @ '': '' @ bytes),
                              State = Some data, World = w'\<rparr>
                        else \<lparr>Diagnostics = gd, State = Some data, World = w'\<rparr>))"

definition ProjectMemberResource_ImportState :: "'r library \<Rightarrow> ProviderData \<Rightarrow> string
    \<Rightarrow> 'r world \<Rightarrow> (ProjectMemberResourceModel, 'r) outcome" where
  "ProjectMemberResource_ImportState L r ID w =
     (let data = \<lparr>PM_Id = Null, PM_ProjectId = Null, PM_UserId = Null, PM_EMail = Null,
                  PM_DisplayName = Null\<rparr>;
          parts = Split ID (CHR ''/'')
      in if length parts \<noteq> 2
         then \<lparr>Diagnostics = AddError [] ''Unexpected Import Identifier''
                  (''Expected import identifier with format: project_id/member_id. Got: '' @ ID),
               State = None, World = w\<rparr>
         else
           let projectId = parts ! 0;
               memberId = parts ! 1;
               st = Some \<lparr>PM_Id = Known memberId, PM_ProjectId = Known projectId,
                          PM_UserId = Null, PM_EMail = Null, PM_DisplayName = Null\<rparr>
           in case NewRequestWithContext L ''GET''
                     (TrimSuffix (endpoint r) ''/'' @ ''/api/v1/projects/''
                        @ ValueString (PM_ProjectId data) @ ''/members/''
                        @ ValueString (PM_Id data))
                     NoBody of
                Inl err \<Rightarrow>
                  \<lparr>Diagnostics = AddError [] ''Client Error''
                                   (''Unable to create request, got error: '' @ err),
                   State = st, World = w\<rparr>
              | Inr httpReq0 \<Rightarrow>
                  let httpReq = httpReq0\<lparr>Header :=
                        Header_Set (Header httpReq0) ''Accept'' ''application/json''\<rparr>
                  in case Do L (client r) httpReq w of
                       (Inl err, w') \<Rightarrow>
                         \<lparr>Diagnostics = AddError [] ''Client Error''
                                          (''Unable to read project, got error: '' @ err),
                          State = st, World = w'\<rparr>
                     | (Inr httpResp, w') \<Rightarrow>
                         (case ReadAll httpResp of
                            Inl err \<Rightarrow>
                              \<lparr>Diagnostics = AddError [] ''Client Error''
                                 (''Unable to read response body, got error: '' @ err),
                               State = st, World = w'\<rparr>
                          | Inr bytes \<Rightarrow>
                              if StatusCode httpResp = 404
                              then \<lparr>Diagnostics = [], State = None, World = w'\<rparr>
                              else if StatusCode httpResp \<noteq> 200
                              then \<lparr>Diagnostics = AddError [] ''Client Error''
                                       (''API returned status '' @ Sprint_d (StatusCode httpResp)
                                          @ '': '' @ bytes),
                                    State = st, World = w'\<rparr>
                              else (case Unmarshal_ProjectMember L bytes of
                                      Inl err \<Rightarrow>
                                        \<lparr>Diagnostics = AddError [] ''Client Error''
                                           (''Unable to parse response, got error: '' @ err),
                                         State = st, World = w'\<rparr>
                                    | Inr projectMember \<Rightarrow>
                                        \<lparr>Diagnostics = [],
                                         State = Some (member_of_response projectMember),
                                         World = w'\<rparr>)))"


section \<open>The project resource\<close>

record ProjectResourceModel =
  PR_Id :: "string tfvalue"
  PR_Name :: "string tfvalue"
  PR_Description :: "string tfvalue"
  PR_OrganisationId :: "string tfvalue"
  PR_Archived :: "bool tfvalue"
  PR_ArchivedAt :: "string tfvalue"
  PR_CreatedAt :: "string tfvalue"
  PR_UpdatedAt :: "string tfvalue"

record ProjectCreateRequest =
  Req_Name :: string
  Req_Description :: string

text \<open>Of the two members of the create request only the description carries \<^verbatim>\<open>omitempty\<close>.\<close>

definition Marshal_ProjectCreateRequest :: "ProjectCreateRequest \<Rightarrow> body" where
  "Marshal_ProjectCreateRequest cr =
     JSONBody ([(''name'', Req_Name cr)] @
               (if Req_Description cr = [] then [] else [(''description'', Req_Description cr)]))"

definition project_of_response :: "Project \<Rightarrow> ProjectResourceModel" where
  "project_of_response project =
     \<lparr>PR_Id = Known (Project_Id project),
      PR_Name = Known (Project_Name project),
      PR_Description = Known (Project_Description project),
      PR_OrganisationId = Known (Project_OrganisationId project),
      PR_Archived = Known (Project_Archived project),
      PR_ArchivedAt = Known (Project_ArchivedAt project),
      PR_CreatedAt = Known (Project_CreatedAt project),
      PR_UpdatedAt = Known (Project_UpdatedAt project)\<rparr>"

definition ProjectResource_Create :: "'r library \<Rightarrow> ProviderData \<Rightarrow> diagnostic list
    \<Rightarrow> ProjectResourceModel \<Rightarrow> 'r world \<Rightarrow> (ProjectResourceModel, 'r) outcome" where
  "ProjectResource_Create L r gd data w =
     (if HasError gd then \<lparr>Diagnostics = gd, State = None, World = w\<rparr>
      else
        let createRequest =
              \<lparr>Req_Name = ValueString (PR_Name data),
               Req_Description = (if \<not> IsNull (PR_Description data)
                                  then ValueString (PR_Description data) else [])\<rparr>;
            jsonBody = Marshal_ProjectCreateRequest createRequest
        in case NewRequestWithContext L ''POST''
                  (TrimSuffix (endpoint r) ''/'' @ ''/api/v1/projects'') jsonBody of
             Inl err \<Rightarrow>
               \<lparr>Diagnostics = AddError gd ''Client Error''
                                (''Unable to create request, got error: '' @ err),
                State = None, World = w\<rparr>
           | Inr httpReq0 \<Rightarrow>
               let httpReq = httpReq0\<lparr>Header :=
                     Header_Set (Header_Set (Header httpReq0) ''Content-Type'' ''application/json'')
                                ''Accept'' ''application/json''\<rparr>
               in case Do L (client r) httpReq w of
                    (Inl err, w') \<Rightarrow>
                      \<lparr>Diagnostics = AddError gd ''Client Error''
                                       (''Unable to create project, got error: '' @ err),
                       State = None, World = w'\<rparr>
                  | (Inr httpResp, w') \<Rightarrow>
                      (case ReadAll httpResp of
                         Inl err \<Rightarrow>
                           \<lparr>Diagnostics = AddError gd ''Client Error''
                                            (''Unable to read response body, got error: '' @ err),
                            State = None, World = w'\<rparr>
                       | Inr bytes \<Rightarrow>
                           if StatusCode httpResp \<noteq> 201
                           then \<lparr>Diagnostics = AddError gd ''Client Error''
                                    (''API returned status '' @ Sprint_d (StatusCode httpResp)
                                       @ '': '' @ bytes),
                                 State = None, World = w'\<rparr>
                           else (case Unmarshal_Project L bytes of
                                   Inl err \<Rightarrow>
                                     \<lparr>Diagnostics = AddError gd ''Client Error''
                                        (''Unable to parse response, got error: '' @ err),
                                      State = None, World = w'\<rparr>
                                 | Inr project \<Rightarrow>
                                     \<lparr>Diagnostics = gd,
                                      State = Some (project_of_response project),
                                      World = w'\<rparr>)))"

definition ProjectResource_Read :: "'r library \<Rightarrow> ProviderData \<Rightarrow> diagnostic list
    \<Rightarrow> ProjectResourceModel \<Rightarrow> 'r world \<Rightarrow> (ProjectResourceModel, 'r) outcome" where
  "ProjectResource_Read L r gd data w =
     (if HasError gd then \<lparr>Diagnostics = gd, State = Some data, World = w\<rparr>
      else
        case NewRequestWithContext L ''GET''
               (TrimSuffix (endpoint r) ''/'' @ ''/api/v1/projects/'' @ ValueString (PR_Id data))
               NoBody of
          Inl err \<Rightarrow>
            \<lparr>Diagnostics = AddError gd ''Client Error''
                             (''Unable to create request, got error: '' @ err),
             State = Some data, World = w\<rparr>
        | Inr httpReq0 \<Rightarrow>
            let httpReq = httpReq0\<lparr>Header :=
                  Header_Set (Header httpReq0) ''Accept'' ''application/json''\<rparr>
            in case Do L (client r) httpReq w of
                 (Inl err, w') \<Rightarrow>
                   \<lparr>Diagnostics = AddError gd ''Client Error''
                                    (''Unable to read project, got error: '' @ err),
                    State = Some data, World = w'\<rparr>
               | (Inr httpResp, w') \<Rightarrow>
                   (case ReadAll httpResp of
                      Inl err \<Rightarrow>
                        \<lparr>Diagnostics = AddError gd ''Client Error''
                                         (''Unable to read response body, got error: '' @ err),
                         State = Some data, World = w'\<rparr>
                    | Inr bytes \<Rightarrow>
                        if StatusCode httpResp = 404
                        then \<lparr>Diagnostics = gd, State = None, World = w'\<rparr>
                        else if StatusCode httpResp \<noteq> 200
                        then \<lparr>Diagnostics = AddError gd ''Client Error''
                                 (''API returned status '' @ Sprint_d (StatusCode httpResp)
                                    @ '': '' @ bytes),
                              State = Some data, World = w'\<rparr>
                        else (case Unmarshal_Project L bytes of
                                Inl err \<Rightarrow>
                                  \<lparr>Diagnostics = AddError gd ''Client Error''
                                     (''Unable to parse response, got error: '' @ err),
                                   State = Some data, World = w'\<rparr>
                              | Inr project \<Rightarrow>
                                  \<lparr>Diagnostics = gd,
                                   State = Some (project_of_response project),
                                   World = w'\<rparr>)))"

definition ProjectResource_Update :: "ProviderData \<Rightarrow> ProjectResourceModel
    \<Rightarrow> ProjectResourceModel \<Rightarrow> 'r world \<Rightarrow> (ProjectResourceModel, 'r) outcome" where
  "ProjectResource_Update r prior plan w =
     \<lparr>Diagnostics = AddError [] ''API Error''
                      ''Unable to update project, method is not implemented on server'',
      State = Some prior, World = w\<rparr>"


section \<open>The project data source\<close>

record ProjectDataSourceModel =
  PD_Id :: "string tfvalue"
  PD_Name :: "string tfvalue"
  PD_Description :: "string tfvalue"
  PD_OrganisationId :: "string tfvalue"
  PD_Archived :: "bool tfvalue"
  PD_ArchivedAt :: "string tfvalue"
  PD_CreatedAt :: "string tfvalue"
  PD_UpdatedAt :: "string tfvalue"

text \<open>The loop over the decoded projects: it stops at the first one that bears the name.\<close>

fun find_by_name :: "string \<Rightarrow> Project list \<Rightarrow> Project option" where
  "find_by_name n [] = None"
| "find_by_name n (p # projects) =
     (if Project_Name p = n then Some p else find_by_name n projects)"

definition ProjectDataSource_Read :: "'r library \<Rightarrow> ProviderData \<Rightarrow> diagnostic list
    \<Rightarrow> ProjectDataSourceModel \<Rightarrow> 'r world \<Rightarrow> (ProjectDataSourceModel, 'r) outcome" where
  "ProjectDataSource_Read L d gd data w =
     (if HasError gd then \<lparr>Diagnostics = gd, State = None, World = w\<rparr>
      else
        case NewRequestWithContext L ''GET''
               (TrimSuffix (endpoint d) ''/'' @ ''/api/v1/projects'') NoBody of
          Inl err \<Rightarrow>
            \<lparr>Diagnostics = AddError gd ''Client Error''
                             (''Unable to create request, got error: '' @ err),
             State = None, World = w\<rparr>
        | Inr httpReq0 \<Rightarrow>
            let httpReq = httpReq0\<lparr>Header :=
                  Header_Set (Header httpReq0) ''Accept'' ''application/json''\<rparr>
            in case Do L (client d) httpReq w of
                 (Inl err, w') \<Rightarrow>
                   \<lparr>Diagnostics = AddError gd ''Client Error''
                                    (''Unable to read projects, got error: '' @ err),
                    State = None, World = w'\<rparr>
               | (Inr httpResp, w') \<Rightarrow>
                   (case ReadAll httpResp of
                      Inl err \<Rightarrow>
                        \<lparr>Diagnostics = AddError gd ''Client Error''
                                         (''Unable to read response body, got error: '' @ err),
                         State = None, World = w'\<rparr>
                    | Inr bytes \<Rightarrow>
                        if StatusCode httpResp \<noteq> 200
                        then \<lparr>Diagnostics = AddError gd ''Client Error''
                                 (''API returned status '' @ Sprint_d (StatusCode httpResp)
                                    @ '': '' @ bytes),
                              State = None, World = w'\<rparr>
                        else (case Unmarshal_Projects L bytes of
                                Inl err \<Rightarrow>
                                  \<lparr>Diagnostics = AddError gd ''Client Error''
                                     (''Unable to parse response, got error: '' @ err),
                                   State = None, World = w'\<rparr>
                              | Inr projects \<Rightarrow>
                                  (case find_by_name (ValueString (PD_Name data)) projects of
                                     None \<Rightarrow>
                                       \<lparr>Diagnostics = AddError gd ''Not Found''
                                          (''No project found with name: ''
                                             @ ValueString (PD_Name data)),
                                        State = None, World = w'\<rparr>
                                   | Some project \<Rightarrow>
                                       \<lparr>Diagnostics = gd,
                                        State = Some
                                          \<lparr>PD_Id = Known (Project_Id project),
                                           PD_Name = Known (Project_Name project),
                                           PD_Description = Known (Project_Description project),
                                           PD_OrganisationId = Known (Project_OrganisationId project),
                                           PD_Archived = Known (Project_Archived project),
                                           PD_ArchivedAt = Known (Project_ArchivedAt project),
                                           PD_CreatedAt = Known (Project_CreatedAt project),
                                           PD_UpdatedAt = Known (Project_UpdatedAt project)\<rparr>,
                                        World = w'\<rparr>))))"


section \<open>Concrete scenarios\<close>

text \<open>
  A remote system without state that answers every request with one status code and one
  body, beside libraries that accept every URL and decode exactly that body (as a list of
  projects it decodes to three: one of another name, the given one, and a later one of the
  same name); a handler configured with the default client; and an empty world.
\<close>

definition scenario_library :: "int \<Rightarrow> string \<Rightarrow> Project \<Rightarrow> ProjectMember \<Rightarrow> unit library" where
  "scenario_library code bytes p m =
     \<lparr>url_error = (\<lambda>u. None),
      network = (\<lambda>req u. (Inr \<lparr>StatusCode = code, ReadAll = Inr bytes\<rparr>, u)),
      Unmarshal_Project = (\<lambda>b. if b = bytes then Inr p else Inl ''unexpected end of JSON input''),
      Unmarshal_Projects =
        (\<lambda>b. if b = bytes
             then Inr [p\<lparr>Project_Id := ''p0'', Project_Name := ''other''\<rparr>, p,
                       p\<lparr>Project_Id := ''p2''\<rparr>]
             else Inl ''unexpected end of JSON input''),
      Unmarshal_ProjectMember = (\<lambda>b. if b = bytes then Inr m else Inl ''unexpected end of JSON input'')\<rparr>"

definition scenario_handler :: ProviderData where
  "scenario_handler = \<lparr>client = DefaultClient, endpoint = ''http://localhost:3000/''\<rparr>"

definition scenario_world :: "unit world" where
  "scenario_world = \<lparr>sent = [], remote = ()\<rparr>"

definition scenario_project :: Project where
  "scenario_project =
     \<lparr>Project_Id = ''p1'', Project_Name = ''Test Project'', Project_Description = [],
      Project_OrganisationId = ''org1'', Project_Archived = False, Project_ArchivedAt = [],
      Project_CreatedAt = ''2024-01-01T00:00:00Z'', Project_UpdatedAt = ''2024-01-01T00:00:00Z''\<rparr>"

definition scenario_member :: ProjectMember where
  "scenario_member =
     \<lparr>Member_Id = ''mem-9'', Member_ProjectId = ''proj-1'', Member_UserId = ''user-12345'',
      Member_User = \<lparr>User_Id = ''user-12345'', User_EMail = ''user@example.com'',
                     User_DisplayName = ''Test User''\<rparr>\<rparr>"

definition scenario_project_plan :: ProjectResourceModel where
  "scenario_project_plan =
     \<lparr>PR_Id = Unknown, PR_Name = Known ''Test Project'', PR_Description = Unknown,
      PR_OrganisationId = Unknown, PR_Archived = Unknown, PR_ArchivedAt = Unknown,
      PR_CreatedAt = Unknown, PR_UpdatedAt = Unknown\<rparr>"

definition scenario_member_state :: ProjectMemberResourceModel where
  "scenario_member_state =
     \<lparr>PM_Id = Known ''mem-9'', PM_ProjectId = Known ''proj-1'', PM_UserId = Known ''user-12345'',
      PM_EMail = Known ''user@example.com'', PM_DisplayName = Known ''Test User''\<rparr>"

definition scenario_member_plan :: "string tfvalue \<Rightarrow> string tfvalue \<Rightarrow> ProjectMemberResourceModel" where
  "scenario_member_plan user_id email =
     \<lparr>PM_Id = Unknown, PM_ProjectId = Known ''proj-1'', PM_UserId = user_id,
      PM_EMail = email, PM_DisplayName = Unknown\<rparr>"

definition scenario_member_config :: "string tfvalue \<Rightarrow> string tfvalue \<Rightarrow> ProjectMemberResourceModel" where
  "scenario_member_config user_id email =
     \<lparr>PM_Id = Null, PM_ProjectId = Known ''proj-1'', PM_UserId = user_id,
      PM_EMail = email, PM_DisplayName = Null\<rparr>"

definition scenario_project_json :: string where
  "scenario_project_json =
     ''{\"id\":\"p1\",\"name\":\"Test Project\",\"organisation_id\":\"org1\",\"archived\":false,\"archived_at\":\"\",\"created_at\":\"2024-01-01T00:00:00Z\",\"updated_at\":\"2024-01-01T00:00:00Z\"}''"

definition scenario_lookup :: "string \<Rightarrow> ProjectDataSourceModel" where
  "scenario_lookup name =
     \<lparr>PD_Id = Null, PD_Name = Known name, PD_Description = Null, PD_OrganisationId = Null,
      PD_Archived = Null, PD_ArchivedAt = Null, PD_CreatedAt = Null, PD_UpdatedAt = Null\<rparr>"

definition scenario_request :: request where
  "scenario_request =
     \<lparr>Method = ''GET'', URL = ''http://localhost:3000/api/v1/projects/p1'',
      Header = [(''Accept'', ''application/json'')], Body = NoBody\<rparr>"

definition scenario_environment :: "string \<Rightarrow> string" where
  "scenario_environment name = []"

section \<open>Auxiliary facts\<close>

lemma AddError_fresh: "\<not> HasError ds \<Longrightarrow> AddError ds s d = ds @ [ErrorDiagnostic s d]"
  by (auto simp: AddError_def HasError_def list_ex_iff)

lemma AddError_Nil: "AddError [] s d = [ErrorDiagnostic s d]"
  by (simp add: AddError_def)

lemma Header_Get_Set: "Header_Get (Header_Set h k v) k = Some v"
  by (induction h) (auto simp: Header_Get_def)

lemma find_by_name_find: "find_by_name n ps = List.find (\<lambda>p. Project_Name p = n) ps"
  by (induction ps) auto

lemma Split_length: "length (Split s c) = Suc (count_list s c)"
  by (induction s) (auto split: list.splits)

lemma RoundTrip_sent:
  "RoundTrip L t req w = (res, w') \<Longrightarrow>
   \<exists>req'. sent w' = sent w @ [req'] \<and> Method req' = Method req \<and> URL req' = URL req \<and> Body req' = Body req"
proof (induction t arbitrary: req)
  case DefaultTransport
  then show ?case by (auto split: prod.splits)
next
  case (authenticatedTransport key t)
  from authenticatedTransport.prems
  have "RoundTrip L t (req\<lparr>Header := Header_Set (Header req) ''Authorization'' (''Bearer '' @ key)\<rparr>) w = (res, w')"
    by simp
  from authenticatedTransport.IH [OF this] show ?case by simp
qed

lemmas scenario_defs = scenario_library_def scenario_handler_def scenario_world_def
  scenario_project_def scenario_member_def scenario_project_plan_def scenario_member_state_def
  scenario_member_plan_def scenario_member_config_def scenario_project_json_def scenario_lookup_def
  scenario_request_def scenario_environment_def

lemmas eval_defs = NewRequestWithContext_def Do_def DefaultClient_def TrimSuffix_def AddError_def
  HasError_def Sprint_d_def nat_digits.simps Let_def member_of_response_def project_of_response_def
  Marshal_ProjectMemberCreateRequest_def Marshal_ProjectCreateRequest_def

section \<open>Creating a project\<close>

text \<open>
  Claim C1, as the handler decides it. When the create request has been answered with status
  201 and the body decodes to a project, Create adds no diagnostic and sets every attribute
  of the state, the user-supplied name and description included, to the known value that the
  response carries. A description that the response omits decodes to the empty string, so
  the state holds the known empty string for it, and likewise for \<^verbatim>\<open>archived_at\<close>.
\<close>

theorem ProjectResource_Create_takes_remote_values:
  fixes L :: "'r library" and r :: ProviderData and data :: ProjectResourceModel
  defines "req \<equiv> \<lparr>Method = ''POST'',
      URL = TrimSuffix (endpoint r) ''/'' @ ''/api/v1/projects'',
      Header = [(''Content-Type'', ''application/json''), (''Accept'', ''application/json'')],
      Body = JSONBody ([(''name'', ValueString (PR_Name data))] @
                (if ValueString (PR_Description data) = [] then []
                 else [(''description'', ValueString (PR_Description data))]))\<rparr>"
  assumes "\<not> HasError gd"
    and "url_error L (URL req) = None"
    and "Do L (client r) req w = (Inr resp, w')"
    and "ReadAll resp = Inr bytes"
    and "StatusCode resp = 201"
    and "Unmarshal_Project L bytes = Inr project"
  shows "ProjectResource_Create L r gd data w =
     \<lparr>Diagnostics = gd,
      State = Some \<lparr>PR_Id = Known (Project_Id project),
                    PR_Name = Known (Project_Name project),
                    PR_Description = Known (Project_Description project),
                    PR_OrganisationId = Known (Project_OrganisationId project),
                    PR_Archived = Known (Project_Archived project),
                    PR_ArchivedAt = Known (Project_ArchivedAt project),
                    PR_CreatedAt = Known (Project_CreatedAt project),
                    PR_UpdatedAt = Known (Project_UpdatedAt project)\<rparr>,
      World = w'\<rparr>"
proof -
  have "(if \<not> IsNull (PR_Description data) then ValueString (PR_Description data) else [])
        = ValueString (PR_Description data)"
    by (cases "PR_Description data") simp_all
  then show ?thesis
    using assms
    by (cases "ValueString (PR_Description data) = []")
       (simp_all add: ProjectResource_Create_def NewRequestWithContext_def Let_def
          Marshal_ProjectCreateRequest_def project_of_response_def)
qed

text \<open>
  The scenario of the claim: the plan has the name \<^verbatim>\<open>Test Project\<close> and an unknown
  description, the remote system assigns \<^verbatim>\<open>p1\<close>, \<^verbatim>\<open>org1\<close> and the timestamps.
\<close>

theorem ProjectResource_Create_takes_remote_values_witness:
  "ProjectResource_Create
     (scenario_library 201 scenario_project_json scenario_project scenario_member)
     scenario_handler [] scenario_project_plan scenario_world =
     \<lparr>Diagnostics = [],
      State = Some \<lparr>PR_Id = Known ''p1'', PR_Name = Known ''Test Project'',
                    PR_Description = Known [], PR_OrganisationId = Known ''org1'',
                    PR_Archived = Known False, PR_ArchivedAt = Known [],
                    PR_CreatedAt = Known ''2024-01-01T00:00:00Z'',
                    PR_UpdatedAt = Known ''2024-01-01T00:00:00Z''\<rparr>,
      World = \<lparr>sent = [\<lparr>Method = ''POST'', URL = ''http://localhost:3000/api/v1/projects'',
                 Header = [(''Content-Type'', ''application/json''), (''Accept'', ''application/json'')],
                 Body = JSONBody [(''name'', ''Test Project'')]\<rparr>],
               remote = ()\<rparr>\<rparr>"
  using ProjectResource_Create_takes_remote_values
    [where L = "scenario_library 201 scenario_project_json scenario_project scenario_member"
      and r = scenario_handler and gd = "[]" and data = scenario_project_plan and w = scenario_world
      and resp = "\<lparr>StatusCode = 201, ReadAll = Inr scenario_project_json\<rparr>"
      and bytes = scenario_project_json
      and project = scenario_project
      and w' = "\<lparr>sent = [\<lparr>Method = ''POST'', URL = ''http://localhost:3000/api/v1/projects'',
                 Header = [(''Content-Type'', ''application/json''), (''Accept'', ''application/json'')],
                 Body = JSONBody [(''name'', ''Test Project'')]\<rparr>],
               remote = ()\<rparr>"]
  by (simp add: scenario_library_def scenario_handler_def scenario_world_def scenario_project_def
        scenario_project_plan_def eval_defs)

text \<open>
  In that scenario the description of the result is the known empty string and not null; and
  when the remote system echoes the name in another spelling, the state takes the echo and
  not the planned name.
\<close>

theorem ProjectResource_Create_counterexample:
  "State (ProjectResource_Create
            (scenario_library 201 scenario_project_json scenario_project scenario_member)
            scenario_handler [] scenario_project_plan scenario_world) =
     Some \<lparr>PR_Id = Known ''p1'', PR_Name = Known ''Test Project'',
           PR_Description = Known [], PR_OrganisationId = Known ''org1'',
           PR_Archived = Known False, PR_ArchivedAt = Known [],
           PR_CreatedAt = Known ''2024-01-01T00:00:00Z'',
           PR_UpdatedAt = Known ''2024-01-01T00:00:00Z''\<rparr>
   \<and> State (ProjectResource_Create
            (scenario_library 201 scenario_project_json scenario_project scenario_member)
            scenario_handler [] scenario_project_plan scenario_world) \<noteq>
     Some \<lparr>PR_Id = Known ''p1'', PR_Name = Known ''Test Project'',
           PR_Description = Null, PR_OrganisationId = Known ''org1'',
           PR_Archived = Known False, PR_ArchivedAt = Known [],
           PR_CreatedAt = Known ''2024-01-01T00:00:00Z'',
           PR_UpdatedAt = Known ''2024-01-01T00:00:00Z''\<rparr>
   \<and> PR_Name scenario_project_plan = Known ''Test Project''
   \<and> State (ProjectResource_Create
            (scenario_library 201 scenario_project_json
               (scenario_project\<lparr>Project_Name := ''test project''\<rparr>) scenario_member)
            scenario_handler [] scenario_project_plan scenario_world) =
     Some \<lparr>PR_Id = Known ''p1'', PR_Name = Known ''test project'',
           PR_Description = Known [], PR_OrganisationId = Known ''org1'',
           PR_Archived = Known False, PR_ArchivedAt = Known [],
           PR_CreatedAt = Known ''2024-01-01T00:00:00Z'',
           PR_UpdatedAt = Known ''2024-01-01T00:00:00Z''\<rparr>"
  by (simp add: ProjectResource_Create_def scenario_library_def scenario_handler_def
        scenario_world_def scenario_project_def scenario_project_plan_def eval_defs)

section \<open>Creating a project member\<close>

text \<open>
  Claim C8, as the handler decides it. Take a planned member whose \<^verbatim>\<open>user_id\<close> is not
  null (planning turns an unset optional and computed attribute into an unknown value), read
  without error, and whose URL parses. Then Create puts exactly one request on the network, a
  POST to the members of the project, and its body is decided by \<^verbatim>\<open>user_id\<close> first: a
  known \<^verbatim>\<open>user_id\<close> is sent alone, provided it is not the empty string; when \<^verbatim>\<open>user_id\<close>
  is unknown, a known \<^verbatim>\<open>email\<close> is sent alone, provided it is not the empty string; an
  unknown or null attribute and an empty string are left out.
\<close>

theorem Create_member_request_body:
  fixes L :: "'r library" and r :: ProviderData and data :: ProjectMemberResourceModel
  assumes "\<not> HasError gd"
    and "PM_UserId data \<noteq> Null"
    and "url_error L (TrimSuffix (endpoint r) ''/'' @ ''/api/v1/projects/''
                       @ ValueString (PM_ProjectId data) @ ''/members'') = None"
  shows "\<exists>req. sent (World (ProjectMemberResource_Create L r gd data w)) = sent w @ [req]
     \<and> Method req = ''POST''
     \<and> URL req = TrimSuffix (endpoint r) ''/'' @ ''/api/v1/projects/''
                    @ ValueString (PM_ProjectId data) @ ''/members''
     \<and> Body req = JSONBody
          (case PM_UserId data of
             Known u \<Rightarrow> (if u = [] then [] else [(''user_id'', u)])
           | _ \<Rightarrow> (case PM_EMail data of
                     Known e \<Rightarrow> (if e = [] then [] else [(''email'', e)])
                   | _ \<Rightarrow> []))"
proof -
  define body where "body = JSONBody
          (case PM_UserId data of
             Known u \<Rightarrow> (if u = [] then [] else [(''user_id'', u)])
           | _ \<Rightarrow> (case PM_EMail data of
                     Known e \<Rightarrow> (if e = [] then [] else [(''email'', e)])
                   | _ \<Rightarrow> []))"
  define url where "url = TrimSuffix (endpoint r) ''/'' @ ''/api/v1/projects/''
                    @ ValueString (PM_ProjectId data) @ ''/members''"
  define httpReq where "httpReq = \<lparr>Method = ''POST'', URL = url,
      Header = [(''Content-Type'', ''application/json''), (''Accept'', ''application/json'')],
      Body = body\<rparr>"
  have marshal: "Marshal_ProjectMemberCreateRequest
          (if IsUnknown (PM_UserId data)
           then \<lparr>Req_UserId = [], Req_EMail = ValueString (PM_EMail data)\<rparr>
           else \<lparr>Req_UserId = ValueString (PM_UserId data), Req_EMail = []\<rparr>) = body"
    using assms(2)
    by (cases "PM_UserId data"; cases "PM_EMail data")
       (simp_all add: Marshal_ProjectMemberCreateRequest_def body_def)
  obtain res w' where do: "Do L (client r) httpReq w = (res, w')"
    by (cases "Do L (client r) httpReq w")
  then obtain req' where sent: "sent w' = sent w @ [req']" "Method req' = ''POST''"
      "URL req' = url" "Body req' = body"
    using RoundTrip_sent [of L "Transport (client r)" httpReq w res w']
    by (auto simp: Do_def httpReq_def)
  have "World (ProjectMemberResource_Create L r gd data w) = w'"
    using assms(1,3) do marshal
    by (simp add: ProjectMemberResource_Create_def NewRequestWithContext_def Let_def
          httpReq_def url_def split: sum.splits)
  with sent show ?thesis by (auto simp: url_def body_def)
qed

theorem Create_member_request_body_witness:
  "sent (World (ProjectMemberResource_Create
        (scenario_library 201 ''{}'' scenario_project scenario_member) scenario_handler []
        (scenario_member_plan (Known ''user-12345'') Unknown) scenario_world)) =
     [\<lparr>Method = ''POST'', URL = ''http://localhost:3000/api/v1/projects/proj-1/members'',
       Header = [(''Content-Type'', ''application/json''), (''Accept'', ''application/json'')],
       Body = JSONBody [(''user_id'', ''user-12345'')]\<rparr>]
   \<and> sent (World (ProjectMemberResource_Create
        (scenario_library 201 ''{}'' scenario_project scenario_member) scenario_handler []
        (scenario_member_plan Unknown (Known ''user@example.com'')) scenario_world)) =
     [\<lparr>Method = ''POST'', URL = ''http://localhost:3000/api/v1/projects/proj-1/members'',
       Header = [(''Content-Type'', ''application/json''), (''Accept'', ''application/json'')],
       Body = JSONBody [(''email'', ''user@example.com'')]\<rparr>]"
  using Create_member_request_body
      [where L = "scenario_library 201 ''{}'' scenario_project scenario_member"
         and r = scenario_handler and gd = "[]" and w = scenario_world
         and data = "scenario_member_plan (Known ''user-12345'') Unknown"]
    Create_member_request_body
      [where L = "scenario_library 201 ''{}'' scenario_project scenario_member"
         and r = scenario_handler and gd = "[]" and w = scenario_world
         and data = "scenario_member_plan Unknown (Known ''user@example.com'')"]
  by (simp add: ProjectMemberResource_Create_def scenario_defs eval_defs)

text \<open>
  Two members that pass validation and whose known identifier is not sent. A configuration
  with the empty string as \<^verbatim>\<open>user_id\<close> passes, and the plan made from it yields an empty
  body. An object with a null \<^verbatim>\<open>user_id\<close> and a known \<^verbatim>\<open>email\<close> passes too, and given
  to Create as it is, it yields an empty body as well.
\<close>

theorem Create_member_body_counterexample:
  "ProjectMemberResource_ValidateConfig [] (scenario_member_config (Known []) Null) = []
   \<and> sent (World (ProjectMemberResource_Create
        (scenario_library 201 ''{}'' scenario_project scenario_member) scenario_handler []
        (scenario_member_plan (Known []) Unknown) scenario_world)) =
     [\<lparr>Method = ''POST'', URL = ''http://localhost:3000/api/v1/projects/proj-1/members'',
       Header = [(''Content-Type'', ''application/json''), (''Accept'', ''application/json'')],
       Body = JSONBody []\<rparr>]
   \<and> ProjectMemberResource_ValidateConfig [] (scenario_member_config Null (Known ''user@example.com'')) = []
   \<and> sent (World (ProjectMemberResource_Create
        (scenario_library 201 ''{}'' scenario_project scenario_member) scenario_handler []
        (scenario_member_config Null (Known ''user@example.com'')) scenario_world)) =
     [\<lparr>Method = ''POST'', URL = ''http://localhost:3000/api/v1/projects/proj-1/members'',
       Header = [(''Content-Type'', ''application/json''), (''Accept'', ''application/json'')],
       Body = JSONBody []\<rparr>]"
  by (simp add: ProjectMemberResource_Create_def ProjectMemberResource_ValidateConfig_def
        scenario_defs eval_defs)

section \<open>Reading a project and a project member\<close>

text \<open>
  Claim C5. For both resources: when the read request has been answered with a status
  outside 200..299 and the body has been read, status 404 empties the response state and adds
  no diagnostic, and every other such status adds a client error that carries the status code
  and the raw body, leaving the state as it was before the call.
\<close>

theorem Read_absent_on_404_rejected_otherwise:
  fixes L :: "'r library" and r :: ProviderData
    and pdata :: ProjectResourceModel and mdata :: ProjectMemberResourceModel
  defines "preq \<equiv> \<lparr>Method = ''GET'',
      URL = TrimSuffix (endpoint r) ''/'' @ ''/api/v1/projects/'' @ ValueString (PR_Id pdata),
      Header = [(''Accept'', ''application/json'')], Body = NoBody\<rparr>"
    and "mreq \<equiv> \<lparr>Method = ''GET'',
      URL = TrimSuffix (endpoint r) ''/'' @ ''/api/v1/projects/''
              @ ValueString (PM_ProjectId mdata) @ ''/members/'' @ ValueString (PM_Id mdata),
      Header = [(''Accept'', ''application/json'')], Body = NoBody\<rparr>"
  assumes "\<not> HasError gd"
    and "url_error L (URL preq) = None"
    and "Do L (client r) preq w = (Inr presp, pw)"
    and "ReadAll presp = Inr pbytes"
    and "StatusCode presp < 200 \<or> 299 < StatusCode presp"
    and "url_error L (URL mreq) = None"
    and "Do L (client r) mreq w = (Inr mresp, mw)"
    and "ReadAll mresp = Inr mbytes"
    and "StatusCode mresp < 200 \<or> 299 < StatusCode mresp"
  shows "ProjectResource_Read L r gd pdata w =
     (if StatusCode presp = 404 then \<lparr>Diagnostics = gd, State = None, World = pw\<rparr>
      else \<lparr>Diagnostics = gd @ [ErrorDiagnostic ''Client Error''
                (''API returned status '' @ Sprint_d (StatusCode presp) @ '': '' @ pbytes)],
            State = Some pdata, World = pw\<rparr>)
   \<and> ProjectMemberResource_Read L r gd mdata w =
     (if StatusCode mresp = 404 then \<lparr>Diagnostics = gd, State = None, World = mw\<rparr>
      else \<lparr>Diagnostics = gd @ [ErrorDiagnostic ''Client Error''
                (''API returned status '' @ Sprint_d (StatusCode mresp) @ '': '' @ mbytes)],
            State = Some mdata, World = mw\<rparr>)"
proof -
  have "ProjectResource_Read L r gd pdata w =
     (if StatusCode presp = 404 then \<lparr>Diagnostics = gd, State = None, World = pw\<rparr>
      else \<lparr>Diagnostics = gd @ [ErrorDiagnostic ''Client Error''
                (''API returned status '' @ Sprint_d (StatusCode presp) @ '': '' @ pbytes)],
            State = Some pdata, World = pw\<rparr>)"
    using assms(1,3-7)
    by (auto simp: ProjectResource_Read_def NewRequestWithContext_def AddError_fresh)
  moreover have "ProjectMemberResource_Read L r gd mdata w =
     (if StatusCode mresp = 404 then \<lparr>Diagnostics = gd, State = None, World = mw\<rparr>
      else \<lparr>Diagnostics = gd @ [ErrorDiagnostic ''Client Error''
                (''API returned status '' @ Sprint_d (StatusCode mresp) @ '': '' @ mbytes)],
            State = Some mdata, World = mw\<rparr>)"
    using assms(2,3,8-11)
    by (auto simp: ProjectMemberResource_Read_def NewRequestWithContext_def AddError_fresh)
  ultimately show ?thesis by simp
qed

theorem Read_absent_on_404_rejected_otherwise_witness:
  "ProjectResource_Read (scenario_library 404 ''Project not found'' scenario_project scenario_member)
     scenario_handler [] (project_of_response scenario_project) scenario_world =
     \<lparr>Diagnostics = [], State = None,
      World = \<lparr>sent = [\<lparr>Method = ''GET'', URL = ''http://localhost:3000/api/v1/projects/p1'',
                         Header = [(''Accept'', ''application/json'')], Body = NoBody\<rparr>],
               remote = ()\<rparr>\<rparr>
   \<and> ProjectMemberResource_Read
       (scenario_library 404 ''Project not found'' scenario_project scenario_member)
       scenario_handler [] scenario_member_state scenario_world =
     \<lparr>Diagnostics = [], State = None,
      World = \<lparr>sent = [\<lparr>Method = ''GET'',
                         URL = ''http://localhost:3000/api/v1/projects/proj-1/members/mem-9'',
                         Header = [(''Accept'', ''application/json'')], Body = NoBody\<rparr>],
               remote = ()\<rparr>\<rparr>
   \<and> ProjectResource_Read (scenario_library 500 ''boom'' scenario_project scenario_member)
     scenario_handler [] (project_of_response scenario_project) scenario_world =
     \<lparr>Diagnostics = [ErrorDiagnostic ''Client Error'' ''API returned status 500: boom''],
      State = Some (project_of_response scenario_project),
      World = \<lparr>sent = [\<lparr>Method = ''GET'', URL = ''http://localhost:3000/api/v1/projects/p1'',
                         Header = [(''Accept'', ''application/json'')], Body = NoBody\<rparr>],
               remote = ()\<rparr>\<rparr>
   \<and> ProjectMemberResource_Read (scenario_library 500 ''boom'' scenario_project scenario_member)
       scenario_handler [] scenario_member_state scenario_world =
     \<lparr>Diagnostics = [ErrorDiagnostic ''Client Error'' ''API returned status 500: boom''],
      State = Some scenario_member_state,
      World = \<lparr>sent = [\<lparr>Method = ''GET'',
                         URL = ''http://localhost:3000/api/v1/projects/proj-1/members/mem-9'',
                         Header = [(''Accept'', ''application/json'')], Body = NoBody\<rparr>],
               remote = ()\<rparr>\<rparr>"
  using Read_absent_on_404_rejected_otherwise
     [where L = "scenario_library 404 ''Project not found'' scenario_project scenario_member"
        and r = scenario_handler and gd = "[]" and w = scenario_world
        and pdata = "project_of_response scenario_project" and mdata = scenario_member_state
        and presp = "\<lparr>StatusCode = 404, ReadAll = Inr ''Project not found''\<rparr>"
        and mresp = "\<lparr>StatusCode = 404, ReadAll = Inr ''Project not found''\<rparr>"
        and pbytes = "''Project not found''" and mbytes = "''Project not found''"
        and pw = "\<lparr>sent = [\<lparr>Method = ''GET'', URL = ''http://localhost:3000/api/v1/projects/p1'',
                         Header = [(''Accept'', ''application/json'')], Body = NoBody\<rparr>],
               remote = ()\<rparr>"
        and mw = "\<lparr>sent = [\<lparr>Method = ''GET'',
                         URL = ''http://localhost:3000/api/v1/projects/proj-1/members/mem-9'',
                         Header = [(''Accept'', ''application/json'')], Body = NoBody\<rparr>],
               remote = ()\<rparr>"]
    Read_absent_on_404_rejected_otherwise
     [where L = "scenario_library 500 ''boom'' scenario_project scenario_member"
        and r = scenario_handler and gd = "[]" and w = scenario_world
        and pdata = "project_of_response scenario_project" and mdata = scenario_member_state
        and presp = "\<lparr>StatusCode = 500, ReadAll = Inr ''boom''\<rparr>"
        and mresp = "\<lparr>StatusCode = 500, ReadAll = Inr ''boom''\<rparr>"
        and pbytes = "''boom''" and mbytes = "''boom''"
        and pw = "\<lparr>sent = [\<lparr>Method = ''GET'', URL = ''http://localhost:3000/api/v1/projects/p1'',
                         Header = [(''Accept'', ''application/json'')], Body = NoBody\<rparr>],
               remote = ()\<rparr>"
        and mw = "\<lparr>sent = [\<lparr>Method = ''GET'',
                         URL = ''http://localhost:3000/api/v1/projects/proj-1/members/mem-9'',
                         Header = [(''Accept'', ''application/json'')], Body = NoBody\<rparr>],
               remote = ()\<rparr>"]
  by (simp add: scenario_defs eval_defs)

section \<open>Updating\<close>

text \<open>
  Claim C6. For the project and the project member resource, whatever the prior and the
  planned objects are, Update reports exactly one error, that the server does not implement
  the method; the response state is still the prior object, and the world is unchanged: no
  request was sent and the remote system is as it was.
\<close>

theorem Update_always_unsupported:
  "HasError (Diagnostics (ProjectResource_Update r prior plan w))
   \<and> Diagnostics (ProjectResource_Update r prior plan w) =
       [ErrorDiagnostic ''API Error'' ''Unable to update project, method is not implemented on server'']
   \<and> State (ProjectResource_Update r prior plan w) = Some prior
   \<and> World (ProjectResource_Update r prior plan w) = w
   \<and> HasError (Diagnostics (ProjectMemberResource_Update r' mprior mplan w'))
   \<and> Diagnostics (ProjectMemberResource_Update r' mprior mplan w') =
       [ErrorDiagnostic ''API Error''
          ''Unable to update project member, method is not implemented on server'']
   \<and> State (ProjectMemberResource_Update r' mprior mplan w') = Some mprior
   \<and> World (ProjectMemberResource_Update r' mprior mplan w') = w'"
  by (simp add: ProjectResource_Update_def ProjectMemberResource_Update_def AddError_Nil HasError_def)

section \<open>Deleting a project member\<close>

text \<open>
  Claim C3, as the handler decides it. Once the delete request has been answered and the body
  read, Delete finishes without a new diagnostic exactly when the status is 204; every other
  status, 404 and the other 2xx codes included, adds a client error that carries the status
  code and the body. The response state is not touched, and the world is the one the exchange
  left.
\<close>

theorem Delete_succeeds_only_on_204:
  fixes L :: "'r library" and r :: ProviderData and data :: ProjectMemberResourceModel
  defines "req \<equiv> \<lparr>Method = ''DELETE'',
      URL = TrimSuffix (endpoint r) ''/'' @ ''/api/v1/projects/''
              @ ValueString (PM_ProjectId data) @ ''/members/'' @ ValueString (PM_Id data),
      Header = [(''Accept'', ''application/json'')], Body = NoBody\<rparr>"
  assumes "\<not> HasError gd"
    and "url_error L (URL req) = None"
    and "Do L (client r) req w = (Inr resp, w')"
    and "ReadAll resp = Inr bytes"
  shows "ProjectMemberResource_Delete L r gd data w =
     \<lparr>Diagnostics =
        (if StatusCode resp = 204 then gd
         else gd @ [ErrorDiagnostic ''Client Error''
                      (''API returned status '' @ Sprint_d (StatusCode resp) @ '': '' @ bytes)]),
      State = Some data, World = w'\<rparr>"
  using assms
  by (simp add: ProjectMemberResource_Delete_def NewRequestWithContext_def AddError_fresh)

theorem Delete_succeeds_only_on_204_witness:
  "ProjectMemberResource_Delete (scenario_library 204 [] scenario_project scenario_member)
     scenario_handler [] scenario_member_state scenario_world =
     \<lparr>Diagnostics = [], State = Some scenario_member_state,
      World = \<lparr>sent = [\<lparr>Method = ''DELETE'',
                         URL = ''http://localhost:3000/api/v1/projects/proj-1/members/mem-9'',
                         Header = [(''Accept'', ''application/json'')], Body = NoBody\<rparr>],
               remote = ()\<rparr>\<rparr>
   \<and> ProjectMemberResource_Delete (scenario_library 200 ''ok'' scenario_project scenario_member)
     scenario_handler [] scenario_member_state scenario_world =
     \<lparr>Diagnostics = [ErrorDiagnostic ''Client Error'' ''API returned status 200: ok''],
      State = Some scenario_member_state,
      World = \<lparr>sent = [\<lparr>Method = ''DELETE'',
                         URL = ''http://localhost:3000/api/v1/projects/proj-1/members/mem-9'',
                         Header = [(''Accept'', ''application/json'')], Body = NoBody\<rparr>],
               remote = ()\<rparr>\<rparr>"
  using Delete_succeeds_only_on_204 [where L = "scenario_library 204 [] scenario_project scenario_member"
      and r = scenario_handler and gd = "[]" and data = scenario_member_state and w = scenario_world
      and resp = "\<lparr>StatusCode = 204, ReadAll = Inr []\<rparr>" and bytes = "[]"
      and w' = "\<lparr>sent = [\<lparr>Method = ''DELETE'',
                         URL = ''http://localhost:3000/api/v1/projects/proj-1/members/mem-9'',
                         Header = [(''Accept'', ''application/json'')], Body = NoBody\<rparr>],
               remote = ()\<rparr>"]
    Delete_succeeds_only_on_204 [where L = "scenario_library 200 ''ok'' scenario_project scenario_member"
      and r = scenario_handler and gd = "[]" and data = scenario_member_state and w = scenario_world
      and resp = "\<lparr>StatusCode = 200, ReadAll = Inr ''ok''\<rparr>" and bytes = "''ok''"
      and w' = "\<lparr>sent = [\<lparr>Method = ''DELETE'',
                         URL = ''http://localhost:3000/api/v1/projects/proj-1/members/mem-9'',
                         Header = [(''Accept'', ''application/json'')], Body = NoBody\<rparr>],
               remote = ()\<rparr>"]
  by (simp add: scenario_defs eval_defs)

text \<open>A remote system that answers 404 to the delete request: Delete reports an error.\<close>

theorem Delete_404_counterexample:
  "Diagnostics (ProjectMemberResource_Delete
      (scenario_library 404 ''Project Member not found'' scenario_project scenario_member)
      scenario_handler [] scenario_member_state scenario_world) =
     [ErrorDiagnostic ''Client Error'' ''API returned status 404: Project Member not found'']
   \<and> HasError (Diagnostics (ProjectMemberResource_Delete
      (scenario_library 404 ''Project Member not found'' scenario_project scenario_member)
      scenario_handler [] scenario_member_state scenario_world))"
  by (simp add: ProjectMemberResource_Delete_def scenario_defs eval_defs)

section \<open>Validating a project member configuration\<close>

text \<open>
  Claim C4. An attribute is supplied when it is not null in the configuration. When the
  configuration was read without error, validation adds one configuration error if neither
  \<^verbatim>\<open>user_id\<close> nor \<^verbatim>\<open>email\<close> is supplied, one configuration error if both are, and
  nothing if exactly one is. The function receives neither a client nor the world, so it
  sends no request.
\<close>

theorem ValidateConfig_exactly_one:
  assumes "\<not> HasError gd"
  shows "ProjectMemberResource_ValidateConfig gd config =
     (if IsNull (PM_UserId config) \<and> IsNull (PM_EMail config)
      then gd @ [ErrorDiagnostic ''Configuration Error''
                   ''Either 'user_id' or 'email' must be provided for a project member.'']
      else if \<not> IsNull (PM_UserId config) \<and> \<not> IsNull (PM_EMail config)
      then gd @ [ErrorDiagnostic ''Configuration Error''
                   ''Only one of 'user_id' or 'email' can be provided for a project member.'']
      else gd)"
  using assms by (simp add: ProjectMemberResource_ValidateConfig_def AddError_fresh)

theorem ValidateConfig_exactly_one_witness:
  "ProjectMemberResource_ValidateConfig [] (scenario_member_config Null Null) =
     [ErrorDiagnostic ''Configuration Error''
        ''Either 'user_id' or 'email' must be provided for a project member.'']
   \<and> ProjectMemberResource_ValidateConfig []
        (scenario_member_config (Known ''user-12345'') (Known ''user@example.com'')) =
     [ErrorDiagnostic ''Configuration Error''
        ''Only one of 'user_id' or 'email' can be provided for a project member.'']
   \<and> ProjectMemberResource_ValidateConfig [] (scenario_member_config (Known ''user-12345'') Null) = []
   \<and> ProjectMemberResource_ValidateConfig [] (scenario_member_config Null (Known ''user@example.com'')) = []"
proof -
  have h: "\<not> HasError []" by (simp add: HasError_def)
  show ?thesis
    using ValidateConfig_exactly_one [OF h, of "scenario_member_config Null Null"]
      ValidateConfig_exactly_one [OF h, of "scenario_member_config (Known ''user-12345'') (Known ''user@example.com'')"]
      ValidateConfig_exactly_one [OF h, of "scenario_member_config (Known ''user-12345'') Null"]
      ValidateConfig_exactly_one [OF h, of "scenario_member_config Null (Known ''user@example.com'')"]
    by (simp add: scenario_member_config_def)
qed

section \<open>Import of a project member\<close>

text \<open>
  Claim C2. Import of a well-formed identifier \<^verbatim>\<open>parentId/memberId\<close> should send its one GET
  request to \<^verbatim>\<open>/api/v1/projects/{parentId}/members/{memberId}\<close>, as Read does with the parsed
  identity. The handler writes the two segments into the response state only and builds the
  URL from a model it never fills: for \<^verbatim>\<open>proj-1/mem-9\<close>, which splits into \<^verbatim>\<open>proj-1\<close> and
  \<^verbatim>\<open>mem-9\<close>, the request that reaches the network is addressed to
  \<^verbatim>\<open>/api/v1/projects//members/\<close>, with both segments missing.
\<close>

theorem ImportState_request_omits_parsed_identity:
  "Split ''proj-1/mem-9'' (CHR ''/'') = [''proj-1'', ''mem-9'']
   \<and> sent (World (ProjectMemberResource_ImportState
        (scenario_library 200 ''{}'' scenario_project scenario_member)
        scenario_handler ''proj-1/mem-9'' scenario_world)) =
     [\<lparr>Method = ''GET'', URL = ''http://localhost:3000/api/v1/projects//members/'',
       Header = [(''Accept'', ''application/json'')], Body = NoBody\<rparr>]"
  by (simp add: ProjectMemberResource_ImportState_def scenario_defs eval_defs)

text \<open>
  Claim C7, as the handler decides it. The identifier is split at every \<^verbatim>\<open>/\<close>, which gives
  one segment more than it has slashes. When the split yields exactly two segments the
  handler does not report an unexpected import identifier; with any other number of segments
  it reports exactly that error and leaves the response state and the world as they were: no
  request is sent. Nothing looks at whether a segment is empty.
\<close>

theorem ImportState_accepts_exactly_two_segments:
  "length (Split ID (CHR ''/'')) = Suc (count_list ID (CHR ''/''))
   \<and> (if length (Split ID (CHR ''/'')) = 2
       then ErrorDiagnostic ''Unexpected Import Identifier''
              (''Expected import identifier with format: project_id/member_id. Got: '' @ ID)
            \<notin> set (Diagnostics (ProjectMemberResource_ImportState L r ID w))
       else ProjectMemberResource_ImportState L r ID w =
              \<lparr>Diagnostics = [ErrorDiagnostic ''Unexpected Import Identifier''
                  (''Expected import identifier with format: project_id/member_id. Got: '' @ ID)],
               State = None, World = w\<rparr>)"
proof -
  have "length (Split ID (CHR ''/'')) = 2 \<Longrightarrow>
        ErrorDiagnostic ''Unexpected Import Identifier''
              (''Expected import identifier with format: project_id/member_id. Got: '' @ ID)
            \<notin> set (Diagnostics (ProjectMemberResource_ImportState L r ID w))"
    by (simp add: ProjectMemberResource_ImportState_def Let_def AddError_Nil
          split: sum.splits prod.splits)
  moreover have "length (Split ID (CHR ''/'')) \<noteq> 2 \<Longrightarrow>
        ProjectMemberResource_ImportState L r ID w =
              \<lparr>Diagnostics = [ErrorDiagnostic ''Unexpected Import Identifier''
                  (''Expected import identifier with format: project_id/member_id. Got: '' @ ID)],
               State = None, World = w\<rparr>"
    by (simp add: ProjectMemberResource_ImportState_def Let_def AddError_Nil)
  ultimately show ?thesis by (simp add: Split_length)
qed

theorem ImportState_accepts_exactly_two_segments_witness:
  "ProjectMemberResource_ImportState (scenario_library 200 ''{}'' scenario_project scenario_member)
      scenario_handler ''proj-1'' scenario_world =
     \<lparr>Diagnostics = [ErrorDiagnostic ''Unexpected Import Identifier''
         ''Expected import identifier with format: project_id/member_id. Got: proj-1''],
      State = None, World = scenario_world\<rparr>
   \<and> ErrorDiagnostic ''Unexpected Import Identifier''
        ''Expected import identifier with format: project_id/member_id. Got: proj-1/mem-9''
      \<notin> set (Diagnostics (ProjectMemberResource_ImportState
           (scenario_library 200 ''{}'' scenario_project scenario_member)
           scenario_handler ''proj-1/mem-9'' scenario_world))"
  using ImportState_accepts_exactly_two_segments
      [of "''proj-1''" "scenario_library 200 ''{}'' scenario_project scenario_member"
          scenario_handler scenario_world]
    ImportState_accepts_exactly_two_segments
      [of "''proj-1/mem-9''" "scenario_library 200 ''{}'' scenario_project scenario_member"
          scenario_handler scenario_world]
  by simp

text \<open>
  The identifiers \<^verbatim>\<open>proj-1/\<close> and \<^verbatim>\<open>/mem-9\<close> have an empty segment, and neither is refused:
  each import sends its request and finishes without a diagnostic.
\<close>

theorem ImportState_empty_segment_counterexample:
  "ProjectMemberResource_ImportState (scenario_library 200 ''{}'' scenario_project scenario_member)
      scenario_handler ''proj-1/'' scenario_world =
     \<lparr>Diagnostics = [], State = Some scenario_member_state,
      World = \<lparr>sent = [\<lparr>Method = ''GET'',
                         URL = ''http://localhost:3000/api/v1/projects//members/'',
                         Header = [(''Accept'', ''application/json'')], Body = NoBody\<rparr>],
               remote = ()\<rparr>\<rparr>
   \<and> ProjectMemberResource_ImportState (scenario_library 200 ''{}'' scenario_project scenario_member)
      scenario_handler ''/mem-9'' scenario_world =
     \<lparr>Diagnostics = [], State = Some scenario_member_state,
      World = \<lparr>sent = [\<lparr>Method = ''GET'',
                         URL = ''http://localhost:3000/api/v1/projects//members/'',
                         Header = [(''Accept'', ''application/json'')], Body = NoBody\<rparr>],
               remote = ()\<rparr>\<rparr>"
  by (simp add: ProjectMemberResource_ImportState_def scenario_defs eval_defs)

section \<open>The authenticated transport\<close>

text \<open>
  Claim C9. The API key in force is the environment variable \<^verbatim>\<open>SWITCHCLOUD_API_KEY\<close> when it
  is not empty, and the configured attribute otherwise. When the configuration was read
  without error, the client that Configure hands out answers a request with what the network
  answers to one outgoing request, and puts exactly that one request on the network, whatever
  the status of the answer: with a key in force the outgoing request is the given one with
  its \<^verbatim>\<open>Authorization\<close> header set to \<^verbatim>\<open>Bearer\<close> and the key, and without a key it is the
  given request itself. Method, URL and body are never changed. The decorator, around any
  transport, is one round trip of the wrapped transport on the request with that header set;
  the API key and the wrapped transport are all it holds.
\<close>

theorem Configure_client_sends_bearer_once:
  fixes Getenv :: "string \<Rightarrow> string" and cfg :: SwitchcloudProviderModel
    and L :: "'r library" and req :: request
  defines "key \<equiv> (if Getenv ''SWITCHCLOUD_API_KEY'' \<noteq> []
                    then Known (Getenv ''SWITCHCLOUD_API_KEY'') else ApiKey cfg)"
  defines "out \<equiv> (if IsNull key then req
                    else req\<lparr>Header := Header_Set (Header req) ''Authorization''
                                           (''Bearer '' @ ValueString key)\<rparr>)"
  assumes "\<not> HasError gd"
  shows "\<exists>pd. Configure Getenv gd cfg = (gd, Some pd)
     \<and> Do L (client pd) req w =
         (fst (network L out (remote w)),
          \<lparr>sent = sent w @ [out], remote = snd (network L out (remote w))\<rparr>)
     \<and> Header_Get (Header out) ''Authorization'' =
         (if IsNull key then Header_Get (Header req) ''Authorization''
          else Some (''Bearer '' @ ValueString key))
     \<and> Method out = Method req \<and> URL out = URL req \<and> Body out = Body req
     \<and> RoundTrip L (authenticatedTransport k t) req w =
         RoundTrip L t (req\<lparr>Header := Header_Set (Header req) ''Authorization''
                                          (''Bearer '' @ k)\<rparr>) w"
proof (cases "IsNull key")
  case True
  then show ?thesis
    using assms(3)
    by (simp add: Configure_def Let_def key_def [symmetric] out_def Do_def DefaultClient_def
          split: prod.splits)
next
  case False
  then show ?thesis
    using assms(3)
    by (simp add: Configure_def Let_def key_def [symmetric] out_def Do_def Header_Get_Set
          split: prod.splits)
qed

text \<open>
  With the key \<^verbatim>\<open>test-api-key\<close> configured and a remote system that answers 401, the one
  request sent carries the bearer header and the 401 answer is returned as it is; with no key
  the request is sent as given.
\<close>

theorem Configure_client_sends_bearer_once_witness:
  "Configure scenario_environment [] \<lparr>Endpoint = Null, ApiKey = Known ''test-api-key''\<rparr> =
     ([], Some \<lparr>client = \<lparr>Transport = authenticatedTransport ''test-api-key'' DefaultTransport\<rparr>,
                endpoint = ''https://api.switchcloud.com''\<rparr>)
   \<and> Do (scenario_library 401 ''Unauthorized'' scenario_project scenario_member)
        \<lparr>Transport = authenticatedTransport ''test-api-key'' DefaultTransport\<rparr>
        scenario_request scenario_world =
     (Inr \<lparr>StatusCode = 401, ReadAll = Inr ''Unauthorized''\<rparr>,
      \<lparr>sent = [\<lparr>Method = ''GET'', URL = ''http://localhost:3000/api/v1/projects/p1'',
                Header = [(''Accept'', ''application/json''),
                          (''Authorization'', ''Bearer test-api-key'')],
                Body = NoBody\<rparr>],
       remote = ()\<rparr>)
   \<and> Configure scenario_environment [] \<lparr>Endpoint = Null, ApiKey = Null\<rparr> =
     ([], Some \<lparr>client = DefaultClient, endpoint = ''https://api.switchcloud.com''\<rparr>)
   \<and> Do (scenario_library 401 ''Unauthorized'' scenario_project scenario_member)
        DefaultClient scenario_request scenario_world =
     (Inr \<lparr>StatusCode = 401, ReadAll = Inr ''Unauthorized''\<rparr>,
      \<lparr>sent = [scenario_request], remote = ()\<rparr>)"
  using Configure_client_sends_bearer_once
      [where Getenv = scenario_environment and gd = "[]"
         and cfg = "\<lparr>Endpoint = Null, ApiKey = Known ''test-api-key''\<rparr>"
         and L = "scenario_library 401 ''Unauthorized'' scenario_project scenario_member"
         and req = scenario_request and w = scenario_world]
    Configure_client_sends_bearer_once
      [where Getenv = scenario_environment and gd = "[]"
         and cfg = "\<lparr>Endpoint = Null, ApiKey = Null\<rparr>"
         and L = "scenario_library 401 ''Unauthorized'' scenario_project scenario_member"
         and req = scenario_request and w = scenario_world]
  by (simp add: Configure_def scenario_defs eval_defs)

section \<open>Reading the project data source\<close>

text \<open>
  Claim C10. When the configuration was read without error, the URL parses, and the request
  is answered with status 200 and a body that decodes to a list of projects, Read takes the
  first project of the list whose name equals the \<^verbatim>\<open>name\<close> argument and sets the state from
  it; when no project bears the name it adds a Not Found error and sets no state. Whatever
  happens, Read puts at most one request on the network, and that request is a GET addressed
  to the collection \<^verbatim>\<open>/api/v1/projects\<close>, never to a project by its id. The \<^verbatim>\<open>id\<close> attribute
  of the configuration has no influence on the outcome.
\<close>

theorem DataSource_Read_selects_first_by_name:
  fixes L :: "'r library" and d :: ProviderData and data :: ProjectDataSourceModel
  defines "req \<equiv> \<lparr>Method = ''GET'',
      URL = TrimSuffix (endpoint d) ''/'' @ ''/api/v1/projects'',
      Header = [(''Accept'', ''application/json'')], Body = NoBody\<rparr>"
  shows "(\<not> HasError gd \<and> url_error L (URL req) = None
           \<and> Do L (client d) req w = (Inr resp, w') \<and> ReadAll resp = Inr bytes
           \<and> StatusCode resp = 200 \<and> Unmarshal_Projects L bytes = Inr projects
          \<longrightarrow> ProjectDataSource_Read L d gd data w =
     (case List.find (\<lambda>p. Project_Name p = ValueString (PD_Name data)) projects of
        None \<Rightarrow>
          \<lparr>Diagnostics = gd @ [ErrorDiagnostic ''Not Found''
               (''No project found with name: '' @ ValueString (PD_Name data))],
           State = None, World = w'\<rparr>
      | Some project \<Rightarrow>
          \<lparr>Diagnostics = gd,
           State = Some \<lparr>PD_Id = Known (Project_Id project),
                         PD_Name = Known (Project_Name project),
                         PD_Description = Known (Project_Description project),
                         PD_OrganisationId = Known (Project_OrganisationId project),
                         PD_Archived = Known (Project_Archived project),
                         PD_ArchivedAt = Known (Project_ArchivedAt project),
                         PD_CreatedAt = Known (Project_CreatedAt project),
                         PD_UpdatedAt = Known (Project_UpdatedAt project)\<rparr>,
           World = w'\<rparr>))
   \<and> (sent (World (ProjectDataSource_Read L d gd data w)) = sent w
       \<or> (\<exists>out. sent (World (ProjectDataSource_Read L d gd data w)) = sent w @ [out]
             \<and> Method out = ''GET''
             \<and> URL out = TrimSuffix (endpoint d) ''/'' @ ''/api/v1/projects''))
   \<and> ProjectDataSource_Read L d gd (data\<lparr>PD_Id := x\<rparr>) w = ProjectDataSource_Read L d gd data w"
proof -
  have read: "ProjectDataSource_Read L d gd data w =
     (case List.find (\<lambda>p. Project_Name p = ValueString (PD_Name data)) projects of
        None \<Rightarrow>
          \<lparr>Diagnostics = gd @ [ErrorDiagnostic ''Not Found''
               (''No project found with name: '' @ ValueString (PD_Name data))],
           State = None, World = w'\<rparr>
      | Some project \<Rightarrow>
          \<lparr>Diagnostics = gd,
           State = Some \<lparr>PD_Id = Known (Project_Id project),
                         PD_Name = Known (Project_Name project),
                         PD_Description = Known (Project_Description project),
                         PD_OrganisationId = Known (Project_OrganisationId project),
                         PD_Archived = Known (Project_Archived project),
                         PD_ArchivedAt = Known (Project_ArchivedAt project),
                         PD_CreatedAt = Known (Project_CreatedAt project),
                         PD_UpdatedAt = Known (Project_UpdatedAt project)\<rparr>,
           World = w'\<rparr>)"
    if "\<not> HasError gd" "url_error L (URL req) = None"
      "Do L (client d) req w = (Inr resp, w')" "ReadAll resp = Inr bytes"
      "StatusCode resp = 200" "Unmarshal_Projects L bytes = Inr projects"
    using that
    by (simp add: req_def ProjectDataSource_Read_def NewRequestWithContext_def AddError_fresh
          find_by_name_find split: option.splits)
  obtain res v where do: "Do L (client d) req w = (res, v)"
    by (cases "Do L (client d) req w")
  then obtain out where out: "sent v = sent w @ [out]" "Method out = ''GET''"
      "URL out = TrimSuffix (endpoint d) ''/'' @ ''/api/v1/projects''"
    using RoundTrip_sent [of L "Transport (client d)" req w res v]
    by (auto simp: Do_def req_def)
  have "World (ProjectDataSource_Read L d gd data w) = w
        \<or> World (ProjectDataSource_Read L d gd data w) = v"
    using do
    by (simp add: req_def ProjectDataSource_Read_def NewRequestWithContext_def Let_def
          split: sum.splits option.splits)
  with out have wire: "sent (World (ProjectDataSource_Read L d gd data w)) = sent w
       \<or> (\<exists>out. sent (World (ProjectDataSource_Read L d gd data w)) = sent w @ [out]
             \<and> Method out = ''GET''
             \<and> URL out = TrimSuffix (endpoint d) ''/'' @ ''/api/v1/projects'')"
    by auto
  have "ProjectDataSource_Read L d gd (data\<lparr>PD_Id := x\<rparr>) w = ProjectDataSource_Read L d gd data w"
    by (simp add: ProjectDataSource_Read_def Let_def
          cong: sum.case_cong prod.case_cong option.case_cong if_cong)
  with read wire show ?thesis by blast
qed

text \<open>
  Among three projects, the second and the third named \<^verbatim>\<open>Test Project\<close>, the second is
  taken; the name \<^verbatim>\<open>missing\<close> is reported as not found.
\<close>

theorem DataSource_Read_selects_first_by_name_witness:
  "ProjectDataSource_Read (scenario_library 200 ''[]'' scenario_project scenario_member)
      scenario_handler [] (scenario_lookup ''Test Project'') scenario_world =
     \<lparr>Diagnostics = [],
      State = Some \<lparr>PD_Id = Known ''p1'', PD_Name = Known ''Test Project'',
                    PD_Description = Known [], PD_OrganisationId = Known ''org1'',
                    PD_Archived = Known False, PD_ArchivedAt = Known [],
                    PD_CreatedAt = Known ''2024-01-01T00:00:00Z'',
                    PD_UpdatedAt = Known ''2024-01-01T00:00:00Z''\<rparr>,
      World = \<lparr>sent = [\<lparr>Method = ''GET'', URL = ''http://localhost:3000/api/v1/projects'',
                         Header = [(''Accept'', ''application/json'')], Body = NoBody\<rparr>],
               remote = ()\<rparr>\<rparr>
   \<and> ProjectDataSource_Read (scenario_library 200 ''[]'' scenario_project scenario_member)
      scenario_handler [] (scenario_lookup ''missing'') scenario_world =
     \<lparr>Diagnostics = [ErrorDiagnostic ''Not Found'' ''No project found with name: missing''],
      State = None,
      World = \<lparr>sent = [\<lparr>Method = ''GET'', URL = ''http://localhost:3000/api/v1/projects'',
                         Header = [(''Accept'', ''application/json'')], Body = NoBody\<rparr>],
               remote = ()\<rparr>\<rparr>"
  using DataSource_Read_selects_first_by_name
      [where L = "scenario_library 200 ''[]'' scenario_project scenario_member"
         and d = scenario_handler and gd = "[]" and w = scenario_world
         and data = "scenario_lookup ''Test Project''"
         and resp = "\<lparr>StatusCode = 200, ReadAll = Inr ''[]''\<rparr>" and bytes = "''[]''"
         and projects = "[scenario_project\<lparr>Project_Id := ''p0'', Project_Name := ''other''\<rparr>,
                          scenario_project, scenario_project\<lparr>Project_Id := ''p2''\<rparr>]"
         and w' = "\<lparr>sent = [\<lparr>Method = ''GET'', URL = ''http://localhost:3000/api/v1/projects'',
                         Header = [(''Accept'', ''application/json'')], Body = NoBody\<rparr>],
               remote = ()\<rparr>"]
    DataSource_Read_selects_first_by_name
      [where L = "scenario_library 200 ''[]'' scenario_project scenario_member"
         and d = scenario_handler and gd = "[]" and w = scenario_world
         and data = "scenario_lookup ''missing''"
         and resp = "\<lparr>StatusCode = 200, ReadAll = Inr ''[]''\<rparr>" and bytes = "''[]''"
         and projects = "[scenario_project\<lparr>Project_Id := ''p0'', Project_Name := ''other''\<rparr>,
                          scenario_project, scenario_project\<lparr>Project_Id := ''p2''\<rparr>]"
         and w' = "\<lparr>sent = [\<lparr>Method = ''GET'', URL = ''http://localhost:3000/api/v1/projects'',
                         Header = [(''Accept'', ''application/json'')], Body = NoBody\<rparr>],
               remote = ()\<rparr>"]
  by (simp add: ProjectDataSource_Read_def scenario_defs eval_defs)

end
